theory Spec2Isabelle
  imports Main
begin

section \<open>Values of the platform and of the API layer\<close>

text \<open>
  Strings are lists of 8-bit characters. A value caught by a
  \<^verbatim>\<open>catch (error: unknown)\<close> clause is either an instance of \<^verbatim>\<open>Error\<close>, with
  its \<^verbatim>\<open>name\<close> and \<^verbatim>\<open>message\<close>, or any other value (a string, a plain object,
  \<^verbatim>\<open>undefined\<close>). A computation that may throw returns a sum, \<open>Inl\<close> holding the
  thrown value.
\<close>

datatype thrown = ErrorObj (err_name: string) (err_message: string) | NonError

text \<open>
  The Numbers that \<^verbatim>\<open>parseInt\<close> can return: NaN, the infinities, negative zero, and the
  finite doubles that are integers, \<open>Finite x\<close> being the double whose value is \<open>x\<close>
  (\<open>Finite 0\<close> is positive zero).
\<close>

datatype Number = NaN | NegZero | Finite int | PosInfinity | NegInfinity

text \<open>\<^verbatim>\<open>IApiConf\<close>: the base URL and the optional token.\<close>

record IApiConf =
  apiUrl :: string
  token :: "string option"

text \<open>\<^verbatim>\<open>IApiError\<close> and \<^verbatim>\<open>IApiResponse<T>\<close> of api-response.interface.ts; an
  optional field that is absent is \<open>None\<close>. The four metadata fields are the ones
  \<^verbatim>\<open>parseHeaders\<close> fills (its \<^verbatim>\<open>Partial<IApiResponse>\<close>); \<^verbatim>\<open>...headers\<close> spreads
  them into every outcome built from a response.\<close>

record IApiError =
  message :: string
  error_status :: "nat option"
  error_statusText :: "string option"

record metadata =
  total :: "Number option"
  skipped :: "Number option"
  link :: "string option"
  serverDateDiff :: "int option"

record 'd IApiResponse = metadata +
  ok :: bool
  status :: "nat option"
  data :: "'d option"
  error :: "IApiError option"

text \<open>The body of a response as \<^verbatim>\<open>response.json()\<close> or \<^verbatim>\<open>response.text()\<close> decodes
  it (\<^verbatim>\<open>parsedData: unknown\<close>).\<close>

datatype 'j parsed = FromJson 'j | FromText string

text \<open>A \<^verbatim>\<open>Response\<close> of the transport: status line, headers, and what reading the
  body as JSON and as text gives (each may throw).\<close>

record 'j Response =
  resp_status :: nat
  resp_statusText :: string
  resp_headers :: "string \<Rightarrow> string option"
  resp_json :: "thrown + 'j"
  resp_text :: "thrown + string"

text \<open>\<^verbatim>\<open>response.ok\<close> of the Fetch standard: the status is in the range 200 to 299.\<close>

definition response_ok :: "'j Response \<Rightarrow> bool" where
  "response_ok response = (200 \<le> resp_status response \<and> resp_status response \<le> 299)"

text \<open>An \<^verbatim>\<open>AbortSignal\<close> is known by the address of the \<^verbatim>\<open>AbortController\<close> that
  owns it.\<close>

datatype AbortSignal = SignalOf nat

datatype 'f BodyInit = StringBody string | FormDataBody "(string \<times> 'f) list"

text \<open>The arguments of one \<^verbatim>\<open>fetch(url, init)\<close> call.\<close>

record 'f request =
  req_url :: string
  req_method :: string
  req_headers :: "(string \<times> string) list"
  req_body :: "'f BodyInit option"
  req_credentials :: string
  req_signal :: "AbortSignal option"

text \<open>What the runtime does during one call: the transport, \<^verbatim>\<open>JSON.stringify\<close> (which
  throws on a cyclic value and gives \<^verbatim>\<open>undefined\<close> for some values), the date parser
  behind \<^verbatim>\<open>new Date(string)\<close> (\<open>None\<close> is an invalid date, whose time value is NaN) and
  the clock read by \<^verbatim>\<open>new Date()\<close>. Time values are whole milliseconds.\<close>

record ('b, 'f, 'j) platform =
  fetch :: "'f request \<Rightarrow> thrown + 'j Response"
  JSON_stringify :: "'b \<Rightarrow> thrown + string option"
  Date_parse :: "string \<Rightarrow> int option"
  Date_now :: int

text \<open>The fields of an \<^verbatim>\<open>ApiFetch\<close> instance, and the store they live in: the
  controllers that have been aborted and the next free address.\<close>

record ApiFetch =
  this_serverDateDiff :: int
  this_controller :: "nat option"

record state = ApiFetch +
  aborted :: "nat set"
  fresh :: nat

definition new_ApiFetch :: state where
  "new_ApiFetch = \<lparr>this_serverDateDiff = 0, this_controller = None, aborted = {}, fresh = 0\<rparr>"

definition new_AbortController :: "state \<Rightarrow> nat \<times> state" where
  "new_AbortController s = (fresh s, s\<lparr>fresh := Suc (fresh s)\<rparr>)"

definition abort :: "nat \<Rightarrow> state \<Rightarrow> state" where
  "abort c s = s\<lparr>aborted := insert c (aborted s)\<rparr>"

section \<open>Control flow: state, exceptions, try, catch and finally\<close>

type_synonym ('a, 's) prog = "'s \<Rightarrow> (thrown + 'a) \<times> 's"

definition ret :: "'a \<Rightarrow> ('a, 's) prog" where
  "ret v = (\<lambda>s. (Inr v, s))"

definition settled :: "thrown + 'a \<Rightarrow> ('a, 's) prog" where
  \<comment> \<open>the value of an expression that may throw, or of an awaited promise that may reject\<close>
  "settled r = (\<lambda>s. (r, s))"

definition bnd :: "('a, 's) prog \<Rightarrow> ('a \<Rightarrow> ('b, 's) prog) \<Rightarrow> ('b, 's) prog" where
  "bnd m f = (\<lambda>s. case m s of (Inl e, s') \<Rightarrow> (Inl e, s') | (Inr v, s') \<Rightarrow> f v s')"

definition try_catch :: "('a, 's) prog \<Rightarrow> (thrown \<Rightarrow> ('a, 's) prog) \<Rightarrow> ('a, 's) prog" where
  "try_catch body handler =
     (\<lambda>s. case body s of (Inl e, s') \<Rightarrow> handler e s' | (Inr v, s') \<Rightarrow> (Inr v, s'))"

definition try_finally :: "('a, 's) prog \<Rightarrow> ('s \<Rightarrow> 's) \<Rightarrow> ('a, 's) prog" where
  \<comment> \<open>a finally block that only assigns\<close>
  "try_finally body cleanup = (\<lambda>s. case body s of (r, s') \<Rightarrow> (r, cleanup s'))"

section \<open>String helpers of the language\<close>

definition truthy :: "string option \<Rightarrow> bool" where
  \<comment> \<open>\<^verbatim>\<open>if (x)\<close> for \<^verbatim>\<open>x: string | undefined | null\<close>\<close>
  "truthy x = (case x of None \<Rightarrow> False | Some str \<Rightarrow> str \<noteq> [])"

definition startsWith :: "string \<Rightarrow> string \<Rightarrow> bool" where
  "startsWith str search = (take (length search) str = search)"

definition str_includes :: "string \<Rightarrow> char \<Rightarrow> bool" where
  "str_includes str c = (c \<in> set str)"

definition digit_char :: "nat \<Rightarrow> char" where
  "digit_char d = ''0123456789'' ! d"

fun show_nat :: "nat \<Rightarrow> string" where
  "show_nat n = (if n < 10 then [digit_char n] else show_nat (n div 10) @ [digit_char (n mod 10)])"

declare show_nat.simps [simp del]

definition isStrWhiteSpaceChar :: "char \<Rightarrow> bool" where
  \<comment> \<open>TAB, LF, VT, FF, CR, SP, NBSP: the white space of ECMAScript among 8-bit characters\<close>
  "isStrWhiteSpaceChar c = ((of_char c :: nat) \<in> {9, 10, 11, 12, 13, 32, 160})"

definition isDigit :: "char \<Rightarrow> bool" where
  "isDigit c = (48 \<le> (of_char c :: nat) \<and> (of_char c :: nat) \<le> 57)"

definition digit_value :: "char \<Rightarrow> int" where
  "digit_value c = int (of_char c) - 48"

text \<open>
  \<^verbatim>\<open>parseInt\<close> returns a Number, an IEEE 754 double. The Number for a positive integer:
  the integer is rounded to 53 significant bits, to the nearest such value and on a tie
  to the one with even significand (roundTiesToEven); a result of \<open>2 ^ 1024\<close> or more is
  an infinity. \<open>parseInt10\<close> follows the steps of ECMAScript's \<^verbatim>\<open>parseInt\<close> for radix 10:
  white space is stripped, a sign is read, the longest run of digits is taken, no digit
  gives NaN and a zero after a minus sign gives negative zero. The integer that the digits
  denote is taken exactly, as V8, SpiderMonkey and JavaScriptCore do; ECMAScript also
  lets an implementation replace every digit after the 20th by a zero.
\<close>

fun bit_length :: "nat \<Rightarrow> nat" where
  "bit_length n = (if n = 0 then 0 else Suc (bit_length (n div 2)))"

declare bit_length.simps [simp del]

definition round_to_double :: "nat \<Rightarrow> nat" where
  "round_to_double n =
     (if n < 2 ^ 53 then n
      else (let q = 2 ^ (bit_length n - 53); m = n div q; rest = n mod q
            in if q < 2 * rest \<or> (2 * rest = q \<and> odd m) then (m + 1) * q else m * q))"

definition to_Number :: "int \<Rightarrow> Number" where
  "to_Number x =
     (let r = round_to_double (nat \<bar>x\<bar>)
      in if r < 2 ^ 1024 then Finite (if x < 0 then - int r else int r)
         else if x < 0 then NegInfinity else PosInfinity)"

definition parseInt10 :: "string \<Rightarrow> Number" where
  \<comment> \<open>\<^verbatim>\<open>parseInt(inputString, 10)\<close>\<close>
  "parseInt10 inputString =
     (let S = dropWhile isStrWhiteSpaceChar inputString;
          sign = (if S \<noteq> [] \<and> hd S = CHR ''-'' then - 1 else 1);
          S' = (if S \<noteq> [] \<and> (hd S = CHR ''+'' \<or> hd S = CHR ''-'') then tl S else S);
          Z = takeWhile isDigit S'
      in if Z = [] then NaN
         else (let mathInt = foldl (\<lambda>acc c. 10 * acc + digit_value c) 0 Z
               in if mathInt = 0 then (if sign = - 1 then NegZero else Finite 0)
                  else to_Number (sign * mathInt)))"

definition isNaN :: "Number \<Rightarrow> bool" where
  "isNaN v = (v = NaN)"

definition ge_zero :: "Number \<Rightarrow> bool" where
  \<comment> \<open>\<^verbatim>\<open>value >= 0\<close>\<close>
  "ge_zero v =
     (case v of NaN \<Rightarrow> False | NegZero \<Rightarrow> True | Finite x \<Rightarrow> 0 \<le> x
      | PosInfinity \<Rightarrow> True | NegInfinity \<Rightarrow> False)"

section \<open>The two URL composers\<close>

definition composeUrl :: "IApiConf \<Rightarrow> string \<Rightarrow> string" where
  "composeUrl config endpoint =
     (let normalizedEndpoint = (if startsWith endpoint ''/'' then endpoint else ''/'' @ endpoint);
          hasQueryParams = str_includes normalizedEndpoint CHR ''?'';
          url = apiUrl config @ normalizedEndpoint
      in case token config of
           None \<Rightarrow> url
         | Some t \<Rightarrow>
             if t \<noteq> [] then url @ (if hasQueryParams then ''&'' else ''?'') @ ''token='' @ t
             else url)"

section \<open>parseHeaders, handleResponse, handleError\<close>

definition parse_count :: "string option \<Rightarrow> Number option" where
  \<comment> \<open>the block shared by Results-Matching and Results-Skipped\<close>
  "parse_count header =
     (case header of
        None \<Rightarrow> None
      | Some str \<Rightarrow>
          if str \<noteq> [] then
            (let v = parseInt10 str
             in if \<not> isNaN v \<and> ge_zero v then Some v else None)
          else None)"

definition parseHeaders ::
  "('b, 'f, 'j) platform \<Rightarrow> 'j Response \<Rightarrow> state \<Rightarrow> metadata \<times> state" where
  "parseHeaders P response s =
     (let h_total = parse_count (resp_headers response ''Results-Matching'');
          h_skipped = parse_count (resp_headers response ''Results-Skipped'');
          linkHeader = resp_headers response ''Link'';
          h_link = (if truthy linkHeader then linkHeader else None);
          dateHeader = resp_headers response ''Date'';
          diff = (case dateHeader of
                    None \<Rightarrow> None
                  | Some str \<Rightarrow>
                      if str \<noteq> [] then
                        (case Date_parse P str of
                           None \<Rightarrow> None
                         | Some serverDate \<Rightarrow> Some (Date_now P - serverDate))
                      else None)
      in case diff of
           None \<Rightarrow>
             (\<lparr>total = h_total, skipped = h_skipped, link = h_link, serverDateDiff = None\<rparr>, s)
         | Some d \<Rightarrow>
             (\<lparr>total = h_total, skipped = h_skipped, link = h_link, serverDateDiff = Some d\<rparr>,
              s\<lparr>this_serverDateDiff := d\<rparr>))"

definition getServerDateDiff :: "state \<Rightarrow> int" where
  "getServerDateDiff s = this_serverDateDiff s"

datatype response_type = As_json | As_text

definition kind_name :: "response_type \<Rightarrow> string" where
  "kind_name ty = (if ty = As_json then ''JSON'' else ''text'')"

definition read_body :: "'j Response \<Rightarrow> response_type \<Rightarrow> thrown + 'j parsed" where
  "read_body response ty =
     (case ty of
        As_json \<Rightarrow> (case resp_json response of Inl e \<Rightarrow> Inl e | Inr v \<Rightarrow> Inr (FromJson v))
      | As_text \<Rightarrow> (case resp_text response of Inl e \<Rightarrow> Inl e | Inr v \<Rightarrow> Inr (FromText v)))"

definition handleResponse ::
  "('b, 'f, 'j) platform \<Rightarrow> 'j Response \<Rightarrow> response_type \<Rightarrow> ('j parsed IApiResponse, state) prog"
  where
  "handleResponse P response ty =
     bnd (\<lambda>s. case parseHeaders P response s of (h, s') \<Rightarrow> (Inr h, s'))
       (\<lambda>headers.
          if resp_status response = 204 then
            ret \<lparr>total = total headers, skipped = skipped headers, link = link headers,
                 serverDateDiff = serverDateDiff headers,
                 ok = True, status = Some 204, data = None, error = None\<rparr>
          else
            try_catch
              (bnd (settled (read_body response ty))
                 (\<lambda>parsedData.
                    if \<not> response_ok response then
                      ret \<lparr>total = total headers, skipped = skipped headers,
                           link = link headers, serverDateDiff = serverDateDiff headers,
                           ok = False, status = Some (resp_status response),
                           data = Some parsedData,
                           error = Some \<lparr>message = ''Request failed: ''
                                            @ show_nat (resp_status response) @ '' ''
                                            @ resp_statusText response,
                                          error_status = Some (resp_status response),
                                          error_statusText = Some (resp_statusText response)\<rparr>\<rparr>
                    else
                      ret \<lparr>total = total headers, skipped = skipped headers,
                           link = link headers, serverDateDiff = serverDateDiff headers,
                           ok = True, status = Some (resp_status response),
                           data = Some parsedData, error = None\<rparr>))
              (\<lambda>parseError.
                 ret \<lparr>total = total headers, skipped = skipped headers, link = link headers,
                      serverDateDiff = serverDateDiff headers,
                      ok = False, status = Some (resp_status response), data = None,
                      error = Some \<lparr>message = ''Failed to parse '' @ kind_name ty @ '' response'',
                                     error_status = None, error_statusText = None\<rparr>\<rparr>))"

definition handleError :: "thrown \<Rightarrow> 'd IApiResponse" where
  "handleError err =
     (case err of
        ErrorObj name msg \<Rightarrow>
          if name = ''AbortError'' then
            \<lparr>total = None, skipped = None, link = None, serverDateDiff = None,
             ok = False, status = None, data = None,
             error = Some \<lparr>message = ''Request aborted'', error_status = None,
                            error_statusText = None\<rparr>\<rparr>
          else
            \<lparr>total = None, skipped = None, link = None, serverDateDiff = None,
             ok = False, status = None, data = None,
             error = Some \<lparr>message = msg, error_status = None, error_statusText = None\<rparr>\<rparr>
      | NonError \<Rightarrow>
          \<lparr>total = None, skipped = None, link = None, serverDateDiff = None,
           ok = False, status = None, data = None,
           error = Some \<lparr>message = ''Network request failed'', error_status = None,
                          error_statusText = None\<rparr>\<rparr>)"

section \<open>The HTTP operations\<close>

text \<open>
  An operation runs up to its \<^verbatim>\<open>await fetch(...)\<close>, is suspended, and resumes when the
  transport has settled. \<^verbatim>\<open>doGet\<close> is written in these two halves, since other calls on
  the same instance may run in between; \<open>doGet\<close> itself is the call that nothing interrupts.
\<close>

record GetOptions =
  opt_signal :: "AbortSignal option"
  useAbort :: bool

definition doGet_issue :: "IApiConf \<Rightarrow> string \<Rightarrow> GetOptions \<Rightarrow> state \<Rightarrow> 'f request \<times> state" where
  "doGet_issue config endpoint options s =
     (case (if useAbort options then
              (case new_AbortController
                      (case this_controller s of None \<Rightarrow> s | Some c \<Rightarrow> abort c s) of
                 (c', s') \<Rightarrow> (Some (SignalOf c'), s'\<lparr>this_controller := Some c'\<rparr>))
            else (opt_signal options, s)) of
        (signal, s1) \<Rightarrow>
          (\<lparr>req_url = composeUrl config endpoint, req_method = ''GET'', req_headers = [],
            req_body = None, req_credentials = ''include'', req_signal = signal\<rparr>, s1))"

definition doGet_resume ::
  "('b, 'f, 'j) platform \<Rightarrow> GetOptions \<Rightarrow> thrown + 'j Response
     \<Rightarrow> ('j parsed IApiResponse, state) prog" where
  "doGet_resume P options fetched =
     try_finally
       (try_catch
          (bnd (settled fetched) (\<lambda>response. handleResponse P response As_json))
          (\<lambda>error. ret (handleError error)))
       (\<lambda>s. if useAbort options then s\<lparr>this_controller := None\<rparr> else s)"

definition doGet ::
  "('b, 'f, 'j) platform \<Rightarrow> IApiConf \<Rightarrow> string \<Rightarrow> GetOptions
     \<Rightarrow> ('j parsed IApiResponse, state) prog" where
  "doGet P config endpoint options =
     (\<lambda>s. case doGet_issue config endpoint options s of
             (req, s1) \<Rightarrow> doGet_resume P options (fetch P req) s1)"

definition doPost ::
  "('b, 'f, 'j) platform \<Rightarrow> IApiConf \<Rightarrow> string \<Rightarrow> 'b \<Rightarrow> AbortSignal option
     \<Rightarrow> ('j parsed IApiResponse, state) prog" where
  "doPost P config endpoint body signal =
     try_catch
       (bnd (settled (JSON_stringify P body))
          (\<lambda>body_text.
             bnd (settled (fetch P
                    \<lparr>req_url = composeUrl config endpoint, req_method = ''POST'',
                     req_headers = [(''Content-Type'', ''application/json'')],
                     req_body = map_option StringBody body_text,
                     req_credentials = ''include'', req_signal = signal\<rparr>))
               (\<lambda>response. handleResponse P response As_json)))
       (\<lambda>error. ret (handleError error))"

definition doPut ::
  "('b, 'f, 'j) platform \<Rightarrow> IApiConf \<Rightarrow> string \<Rightarrow> 'b
     \<Rightarrow> ('j parsed IApiResponse, state) prog" where
  "doPut P config endpoint body =
     try_catch
       (bnd (settled (JSON_stringify P body))
          (\<lambda>body_text.
             bnd (settled (fetch P
                    \<lparr>req_url = composeUrl config endpoint, req_method = ''PUT'',
                     req_headers = [(''Content-Type'', ''application/json'')],
                     req_body = map_option StringBody body_text,
                     req_credentials = ''include'', req_signal = None\<rparr>))
               (\<lambda>response. handleResponse P response As_json)))
       (\<lambda>error. ret (handleError error))"

definition doDelete ::
  "('b, 'f, 'j) platform \<Rightarrow> IApiConf \<Rightarrow> string \<Rightarrow> ('j parsed IApiResponse, state) prog" where
  "doDelete P config endpoint =
     try_catch
       (bnd (settled (fetch P
               \<lparr>req_url = composeUrl config endpoint, req_method = ''DELETE'',
                req_headers = [], req_body = None,
                req_credentials = ''include'', req_signal = None\<rparr>))
          (\<lambda>response. handleResponse P response As_json))
       (\<lambda>error. ret (handleError error))"

definition doPatch ::
  "('b, 'f, 'j) platform \<Rightarrow> IApiConf \<Rightarrow> string \<Rightarrow> 'b
     \<Rightarrow> ('j parsed IApiResponse, state) prog" where
  "doPatch P config endpoint patches =
     try_catch
       (bnd (settled (JSON_stringify P patches))
          (\<lambda>body_text.
             bnd (settled (fetch P
                    \<lparr>req_url = composeUrl config endpoint, req_method = ''PATCH'',
                     req_headers = [(''Content-Type'', ''application/json-patch+json'')],
                     req_body = map_option StringBody body_text,
                     req_credentials = ''include'', req_signal = None\<rparr>))
               (\<lambda>response. handleResponse P response As_json)))
       (\<lambda>error. ret (handleError error))"

definition doPostFile ::
  "('b, 'f, 'j) platform \<Rightarrow> IApiConf \<Rightarrow> string \<Rightarrow> 'f
     \<Rightarrow> ('j parsed IApiResponse, state) prog" where
  "doPostFile P config endpoint file =
     try_catch
       (bnd (settled (fetch P
               \<lparr>req_url = composeUrl config endpoint, req_method = ''POST'',
                req_headers = [], req_body = Some (FormDataBody [(''file'', file)]),
                req_credentials = ''include'', req_signal = None\<rparr>))
          (\<lambda>response. handleResponse P response As_json))
       (\<lambda>error. ret (handleError error))"

definition doGetText ::
  "('b, 'f, 'j) platform \<Rightarrow> IApiConf \<Rightarrow> string \<Rightarrow> ('j parsed IApiResponse, state) prog" where
  "doGetText P config endpoint =
     try_catch
       (bnd (settled (fetch P
               \<lparr>req_url = composeUrl config endpoint, req_method = ''GET'',
                req_headers = [], req_body = None,
                req_credentials = ''include'', req_signal = None\<rparr>))
          (\<lambda>response. handleResponse P response As_text))
       (\<lambda>error. ret (handleError error))"

section \<open>Calls that overlap on one instance\<close>

text \<open>
  Scheduling is cooperative: between the two halves of a \<^verbatim>\<open>doGet\<close> call, other calls
  may be issued and other suspended calls may resume. A world holds the instance, the
  calls in flight (with the request each one sent) and the outcomes delivered so far.
\<close>

record ('f, 'j) world =
  instance_state :: state
  in_flight :: "(nat \<times> GetOptions \<times> 'f request) list"
  delivered :: "(nat \<times> (thrown + 'j parsed IApiResponse)) list"

datatype ('b, 'f, 'j) event =
    Call nat string GetOptions
  | Resume nat "('b, 'f, 'j) platform"

definition new_world :: "('f, 'j) world" where
  "new_world = \<lparr>instance_state = new_ApiFetch, in_flight = [], delivered = []\<rparr>"

definition step ::
  "IApiConf \<Rightarrow> ('f, 'j) world \<Rightarrow> ('b, 'f, 'j) event \<Rightarrow> ('f, 'j) world" where
  "step config w ev =
     (case ev of
        Call k endpoint options \<Rightarrow>
          (case doGet_issue config endpoint options (instance_state w) of
             (req, s1) \<Rightarrow>
               w\<lparr>instance_state := s1, in_flight := in_flight w @ [(k, options, req)]\<rparr>)
      | Resume k P \<Rightarrow>
          (case map_of (in_flight w) k of
             None \<Rightarrow> w
           | Some (options, req) \<Rightarrow>
               (case doGet_resume P options (fetch P req) (instance_state w) of
                  (r, s1) \<Rightarrow>
                    w\<lparr>instance_state := s1,
                      in_flight := filter (\<lambda>entry. fst entry \<noteq> k) (in_flight w),
                      delivered := delivered w @ [(k, r)]\<rparr>)))"

definition run ::
  "IApiConf \<Rightarrow> ('f, 'j) world \<Rightarrow> ('b, 'f, 'j) event list \<Rightarrow> ('f, 'j) world" where
  "run config w evs = foldl (step config) w evs"

section \<open>composePath\<close>

text \<open>
  \<^verbatim>\<open>new URL(p)\<close> runs the basic URL parser of the URL Standard with no base URL. The
  parser strips leading and trailing C0 controls and spaces, removes tabs and newlines,
  and then reads a scheme: an ASCII letter, then letters, digits, \<open>+\<close>, \<open>-\<close> and \<open>.\<close> up to
  a colon. Without a scheme it fails, and the constructor throws a \<^verbatim>\<open>TypeError\<close>. What
  the parser does with the rest of an input that has a scheme (authority, host, port,
  path, query, fragment), \<^verbatim>\<open>searchParams.append\<close> and the serializer are the
  platform's and are taken as given.
\<close>

record 'u URL_platform =
  URL_parse :: "string \<Rightarrow> 'u option"
  searchParams_append :: "'u \<Rightarrow> string \<Rightarrow> string \<Rightarrow> 'u"
  URL_toString :: "'u \<Rightarrow> string"
  invalid_URL_message :: string

definition isC0ControlOrSpace :: "char \<Rightarrow> bool" where
  "isC0ControlOrSpace c = ((of_char c :: nat) \<le> 32)"

definition isTabOrNewline :: "char \<Rightarrow> bool" where
  "isTabOrNewline c = ((of_char c :: nat) \<in> {9, 10, 13})"

definition isAsciiAlpha :: "char \<Rightarrow> bool" where
  "isAsciiAlpha c =
     (65 \<le> (of_char c :: nat) \<and> (of_char c :: nat) \<le> 90
      \<or> 97 \<le> (of_char c :: nat) \<and> (of_char c :: nat) \<le> 122)"

definition isSchemeChar :: "char \<Rightarrow> bool" where
  "isSchemeChar c =
     (isAsciiAlpha c \<or> isDigit c \<or> c = CHR ''+'' \<or> c = CHR ''-'' \<or> c = CHR ''.'')"

definition has_scheme :: "string \<Rightarrow> bool" where
  "has_scheme input =
     (case filter (\<lambda>c. \<not> isTabOrNewline c)
             (rev (dropWhile isC0ControlOrSpace (rev (dropWhile isC0ControlOrSpace input)))) of
        [] \<Rightarrow> False
      | c # rest \<Rightarrow>
          isAsciiAlpha c
          \<and> (case dropWhile isSchemeChar rest of [] \<Rightarrow> False | d # _ \<Rightarrow> d = CHR '':''))"

definition URL_new :: "'u URL_platform \<Rightarrow> string \<Rightarrow> thrown + 'u" where
  "URL_new U input =
     (if has_scheme input then
        (case URL_parse U input of
           None \<Rightarrow> Inl (ErrorObj ''TypeError'' (invalid_URL_message U))
         | Some url \<Rightarrow> Inr url)
      else Inl (ErrorObj ''TypeError'' (invalid_URL_message U)))"

definition pattern_test :: "string \<Rightarrow> bool" where
  \<comment> \<open>\<^verbatim>\<open>/^((http|https):\/\/)/.test(path)\<close>\<close>
  "pattern_test path = (startsWith path ''http://'' \<or> startsWith path ''https://'')"

definition composePath :: "'u URL_platform \<Rightarrow> IApiConf \<Rightarrow> string \<Rightarrow> thrown + string" where
  "composePath U config path =
     (let p = (if pattern_test path then path else apiUrl config @ path)
      in case token config of
           None \<Rightarrow> Inr p
         | Some t \<Rightarrow>
             if t \<noteq> [] then
               (case URL_new U p of
                  Inl e \<Rightarrow> Inl e
                | Inr withToken \<Rightarrow>
                    Inr (URL_toString U (searchParams_append U withToken ''access_token'' t)))
             else Inr p)"

section \<open>The URL Standard on plain URLs\<close>

text \<open>
  \<open>plain_URL\<close> is a \<open>URL_platform\<close> that does what the URL Standard does on the plainest
  URLs, \<^verbatim>\<open>http(s)://host[:port][/path][?query][#fragment]\<close>: a host of non-empty
  labels of lower-case letters and digits whose last label starts with a letter; a port
  without leading zero, at most 65535 and not the scheme's default; a path, a query and a
  fragment over letters, digits, \<open>_\<close> and \<open>-\<close> (the path also \<open>/\<close>, the query also \<open>=\<close>
  and \<open>&\<close>). On these the URL Standard changes nothing but an empty path, which becomes
  \<open>/\<close>. It rejects every other input, so it accepts fewer inputs than the Standard
  does. \<^verbatim>\<open>searchParams.append\<close> parses the query into name-value pairs, adds the pair
  and writes the list back with the \<^verbatim>\<open>application/x-www-form-urlencoded\<close> serializer.
\<close>

record plain_url =
  url_origin :: string
  url_path :: string
  url_query :: "string option"
  url_fragment :: "string option"

fun split_on :: "char \<Rightarrow> string \<Rightarrow> string list" where
  "split_on sep [] = [[]]"
| "split_on sep (c # cs) =
     (if c = sep then [] # split_on sep cs
      else (case split_on sep cs of [] \<Rightarrow> [[c]] | w # ws \<Rightarrow> (c # w) # ws))"

definition isLowerAlpha :: "char \<Rightarrow> bool" where
  "isLowerAlpha c = (97 \<le> (of_char c :: nat) \<and> (of_char c :: nat) \<le> 122)"

definition isPlainChar :: "char \<Rightarrow> bool" where
  "isPlainChar c = (isAsciiAlpha c \<or> isDigit c \<or> c = CHR ''_'' \<or> c = CHR ''-'')"

definition plain_host :: "string \<Rightarrow> bool" where
  "plain_host host =
     (list_all (\<lambda>label. label \<noteq> [] \<and> list_all (\<lambda>c. isLowerAlpha c \<or> isDigit c) label)
        (split_on CHR ''.'' host)
      \<and> isLowerAlpha (hd (last (split_on CHR ''.'' host))))"

definition plain_port :: "string \<Rightarrow> string \<Rightarrow> bool" where
  "plain_port scheme digits =
     (digits \<noteq> [] \<and> list_all isDigit digits \<and> hd digits \<noteq> CHR ''0'' \<and> length digits \<le> 5
      \<and> foldl (\<lambda>acc c. 10 * acc + digit_value c) 0 digits \<le> 65535
      \<and> foldl (\<lambda>acc c. 10 * acc + digit_value c) 0 digits
           \<noteq> (if scheme = ''http'' then 80 else 443))"

definition plain_URL_after :: "string \<Rightarrow> string \<Rightarrow> plain_url option" where
  "plain_URL_after scheme rest =
     (let ends_authority = (\<lambda>c. c = CHR ''/'' \<or> c = CHR ''?'' \<or> c = CHR ''#'');
          authority = takeWhile (\<lambda>c. \<not> ends_authority c) rest;
          after_authority = dropWhile (\<lambda>c. \<not> ends_authority c) rest;
          host = takeWhile (\<lambda>c. c \<noteq> CHR '':'') authority;
          port = dropWhile (\<lambda>c. c \<noteq> CHR '':'') authority;
          path = takeWhile (\<lambda>c. c \<noteq> CHR ''?'' \<and> c \<noteq> CHR ''#'') after_authority;
          after_path = dropWhile (\<lambda>c. c \<noteq> CHR ''?'' \<and> c \<noteq> CHR ''#'') after_authority;
          query = (if after_path \<noteq> [] \<and> hd after_path = CHR ''?''
                   then Some (takeWhile (\<lambda>c. c \<noteq> CHR ''#'') (tl after_path)) else None);
          after_query = dropWhile (\<lambda>c. c \<noteq> CHR ''#'') after_path;
          fragment = (if after_query \<noteq> [] then Some (tl after_query) else None)
      in if plain_host host
            \<and> (port = [] \<or> plain_port scheme (tl port))
            \<and> list_all (\<lambda>c. isPlainChar c \<or> c = CHR ''/'') path
            \<and> (case query of None \<Rightarrow> True
                | Some q \<Rightarrow> list_all (\<lambda>c. isPlainChar c \<or> c = CHR ''='' \<or> c = CHR ''&'') q)
            \<and> (case fragment of None \<Rightarrow> True | Some f \<Rightarrow> list_all isPlainChar f)
         then Some \<lparr>url_origin = scheme @ ''://'' @ authority,
                    url_path = (if path = [] then ''/'' else path),
                    url_query = query, url_fragment = fragment\<rparr>
         else None)"

definition plain_URL_parse :: "string \<Rightarrow> plain_url option" where
  "plain_URL_parse input =
     (if startsWith input ''http://'' then plain_URL_after ''http'' (drop 7 input)
      else if startsWith input ''https://'' then plain_URL_after ''https'' (drop 8 input)
      else None)"

definition hex_digit :: "nat \<Rightarrow> char" where
  "hex_digit d = ''0123456789ABCDEF'' ! d"

definition percent_byte :: "nat \<Rightarrow> string" where
  "percent_byte b = [CHR ''%'', hex_digit (b div 16), hex_digit (b mod 16)]"

definition urlencode_char :: "char \<Rightarrow> string" where
  \<comment> \<open>a character is a code point below 256; beyond ASCII its UTF-8 encoding has two bytes\<close>
  "urlencode_char c =
     (if isAsciiAlpha c \<or> isDigit c \<or> c = CHR ''*'' \<or> c = CHR ''-'' \<or> c = CHR ''.''
         \<or> c = CHR ''_'' then [c]
      else if c = CHR '' '' then ''+''
      else if (of_char c :: nat) < 128 then percent_byte (of_char c)
      else percent_byte (192 + of_char c div 64) @ percent_byte (128 + of_char c mod 64))"

definition urlencode :: "string \<Rightarrow> string" where
  "urlencode str = concat (map urlencode_char str)"

definition parse_urlencoded :: "string \<Rightarrow> (string \<times> string) list" where
  \<comment> \<open>on a query without \<open>+\<close> and \<open>%\<close>, where nothing is to decode\<close>
  "parse_urlencoded q =
     map (\<lambda>pair. (takeWhile (\<lambda>c. c \<noteq> CHR ''='') pair,
                   drop 1 (dropWhile (\<lambda>c. c \<noteq> CHR ''='') pair)))
       (filter (\<lambda>pair. pair \<noteq> []) (split_on CHR ''&'' q))"

fun serialize_urlencoded :: "(string \<times> string) list \<Rightarrow> string" where
  "serialize_urlencoded [] = []"
| "serialize_urlencoded [(n, v)] = urlencode n @ ''='' @ urlencode v"
| "serialize_urlencoded ((n, v) # rest) =
     urlencode n @ ''='' @ urlencode v @ ''&'' @ serialize_urlencoded rest"

definition plain_append :: "plain_url \<Rightarrow> string \<Rightarrow> string \<Rightarrow> plain_url" where
  "plain_append url name v =
     url\<lparr>url_query :=
           Some (serialize_urlencoded
                   (parse_urlencoded (case url_query url of None \<Rightarrow> [] | Some q \<Rightarrow> q)
                    @ [(name, v)]))\<rparr>"

definition plain_toString :: "plain_url \<Rightarrow> string" where
  "plain_toString url =
     url_origin url @ url_path url
     @ (case url_query url of None \<Rightarrow> [] | Some q \<Rightarrow> ''?'' @ q)
     @ (case url_fragment url of None \<Rightarrow> [] | Some f \<Rightarrow> ''#'' @ f)"

definition plain_URL :: "plain_url URL_platform" where
  "plain_URL = \<lparr>URL_parse = plain_URL_parse, searchParams_append = plain_append,
                URL_toString = plain_toString, invalid_URL_message = ''Invalid URL''\<rparr>"

section \<open>A mock transport and sample responses\<close>

text \<open>JSON values, for the bodies of the examples.\<close>

datatype json_value = JNull | JBool bool | JNum int | JStr string
  | JArr "json_value list" | JObj "(string \<times> json_value) list"

definition mock_platform ::
  "(thrown + json_value Response) \<Rightarrow> (string \<Rightarrow> int option) \<Rightarrow> int
     \<Rightarrow> (string, string, json_value) platform" where
  "mock_platform fetched dates now =
     \<lparr>fetch = (\<lambda>req. fetched), JSON_stringify = (\<lambda>body. Inr (Some body)),
      Date_parse = dates, Date_now = now\<rparr>"

definition boom :: "json_value Response" where
  "boom = \<lparr>resp_status = 500, resp_statusText = ''Internal Server Error'',
           resp_headers = (\<lambda>name. None),
           resp_json = Inr (JObj [(''message'', JStr ''boom'')]),
           resp_text = Inr ''{}''\<rparr>"

definition garbled :: "nat \<Rightarrow> string \<Rightarrow> json_value Response" where
  "garbled code reason =
     \<lparr>resp_status = code, resp_statusText = reason, resp_headers = (\<lambda>name. None),
      resp_json = Inl (ErrorObj ''SyntaxError'' ''Unexpected token < in JSON at position 0''),
      resp_text = Inl (ErrorObj ''TypeError'' ''Failed to fetch'')\<rparr>"

definition with_headers :: "nat \<Rightarrow> (string \<Rightarrow> string option) \<Rightarrow> json_value Response" where
  "with_headers code headers =
     \<lparr>resp_status = code, resp_statusText = [], resp_headers = headers,
      resp_json = Inr (JArr []), resp_text = Inr ''[]''\<rparr>"

text \<open>A date parser that knows one date, one second after the epoch.\<close>

definition epoch_dates :: "string \<Rightarrow> int option" where
  "epoch_dates str = (if str = ''Thu, 01 Jan 1970 00:00:01 GMT'' then Some 1000 else None)"

text \<open>Three searches of an autocomplete box, each with \<^verbatim>\<open>{useAbort: true}\<close>: the first
  two are issued, the first is resumed with the rejection its abort caused, and the third
  is issued while the second is still in flight.\<close>

definition auto_cancel :: GetOptions where
  "auto_cancel = \<lparr>opt_signal = None, useAbort = True\<rparr>"

definition aborting :: "(string, string, json_value) platform" where
  "aborting = mock_platform (Inl (ErrorObj ''AbortError'' ''The user aborted a request.''))
                epoch_dates 0"

definition search_config :: IApiConf where
  "search_config = \<lparr>apiUrl = ''http://h/api'', token = None\<rparr>"

definition three_searches :: "(string, string, json_value) event list" where
  "three_searches =
     [Call 1 ''/search?q=a'' auto_cancel, Call 2 ''/search?q=ab'' auto_cancel,
      Resume 1 aborting, Call 3 ''/search?q=abc'' auto_cancel]"

section \<open>Notions of the specification\<close>









section \<open>No operation throws\<close>

lemma handleResponse_returns:
  "\<exists>r s'. handleResponse P response ty s = (Inr r, s')"
  by (simp add: handleResponse_def bnd_def ret_def try_catch_def settled_def
      split: prod.split sum.split)

lemma doGet_resume_returns: "\<exists>r s'. doGet_resume P options fetched s = (Inr r, s')"
proof (cases fetched)
  case (Inl e)
  then show ?thesis
    by (simp add: doGet_resume_def try_finally_def try_catch_def bnd_def settled_def ret_def)
next
  case (Inr response)
  obtain r s' where "handleResponse P response As_json s = (Inr r, s')"
    using handleResponse_returns by blast
  with Inr show ?thesis
    by (simp add: doGet_resume_def try_finally_def try_catch_def bnd_def settled_def ret_def)
qed

lemma call_returns:
  "\<exists>r s'. try_catch (bnd (settled fetched) (\<lambda>response. handleResponse P response ty))
            (\<lambda>error. ret (handleError error)) s = (Inr r, s')"
proof (cases fetched)
  case (Inl e)
  then show ?thesis
    by (simp add: try_catch_def bnd_def settled_def ret_def)
next
  case (Inr response)
  obtain r s' where "handleResponse P response ty s = (Inr r, s')"
    using handleResponse_returns by blast
  with Inr show ?thesis
    by (simp add: try_catch_def bnd_def settled_def ret_def)
qed

lemma call_with_body_returns:
  "\<exists>r s'. try_catch
            (bnd (settled stringified)
               (\<lambda>body_text. bnd (settled (send body_text))
                                 (\<lambda>response. handleResponse P response ty)))
            (\<lambda>error. ret (handleError error)) s = (Inr r, s')"
proof (cases stringified)
  case (Inl e)
  then show ?thesis
    by (simp add: try_catch_def bnd_def settled_def ret_def)
next
  case (Inr body_text)
  have "try_catch
            (bnd (settled stringified)
               (\<lambda>body_text. bnd (settled (send body_text))
                                 (\<lambda>response. handleResponse P response ty)))
            (\<lambda>error. ret (handleError error)) s
        = try_catch (bnd (settled (send body_text)) (\<lambda>response. handleResponse P response ty))
            (\<lambda>error. ret (handleError error)) s"
    using Inr by (simp add: try_catch_def bnd_def settled_def)
  then show ?thesis using call_returns by metis
qed

text \<open>
  Claim C1. Each of the seven operations that perform an HTTP call resolves to an
  \<^verbatim>\<open>IApiResponse\<close> value, whatever the transport does (a response of any status and
  body, a thrown value of any kind, an abort) and whatever \<^verbatim>\<open>JSON.stringify\<close> does with
  the body: the result is never a thrown value. For \<^verbatim>\<open>doGet\<close> this holds for the call
  that runs undisturbed and for its second half resumed in any state of the instance.
\<close>

theorem http_operations_never_throw:
  "(\<exists>r s'. doGet P config endpoint options s = (Inr r, s'))
   \<and> (\<exists>r s'. doGet_resume P options fetched s = (Inr r, s'))
   \<and> (\<exists>r s'. doGetText P config endpoint s = (Inr r, s'))
   \<and> (\<exists>r s'. doPost P config endpoint body signal s = (Inr r, s'))
   \<and> (\<exists>r s'. doPut P config endpoint body s = (Inr r, s'))
   \<and> (\<exists>r s'. doDelete P config endpoint s = (Inr r, s'))
   \<and> (\<exists>r s'. doPatch P config endpoint patches s = (Inr r, s'))
   \<and> (\<exists>r s'. doPostFile P config endpoint file s = (Inr r, s'))"
proof (intro conjI)
  show "\<exists>r s'. doGet P config endpoint options s = (Inr r, s')"
    by (simp add: doGet_def doGet_resume_returns split: prod.split)
  show "\<exists>r s'. doGet_resume P options fetched s = (Inr r, s')"
    by (rule doGet_resume_returns)
  show "\<exists>r s'. doGetText P config endpoint s = (Inr r, s')"
    unfolding doGetText_def by (rule call_returns)
  show "\<exists>r s'. doPost P config endpoint body signal s = (Inr r, s')"
    unfolding doPost_def by (rule call_with_body_returns)
  show "\<exists>r s'. doPut P config endpoint body s = (Inr r, s')"
    unfolding doPut_def by (rule call_with_body_returns)
  show "\<exists>r s'. doDelete P config endpoint s = (Inr r, s')"
    unfolding doDelete_def by (rule call_returns)
  show "\<exists>r s'. doPatch P config endpoint patches s = (Inr r, s')"
    unfolding doPatch_def by (rule call_with_body_returns)
  show "\<exists>r s'. doPostFile P config endpoint file s = (Inr r, s')"
    unfolding doPostFile_def by (rule call_returns)
qed

section \<open>Outcomes built from a response\<close>

text \<open>\<open>handleResponse\<close> with its control flow unfolded: one outcome for each of the four
  paths, all on the headers and the state that \<open>parseHeaders\<close> returns.\<close>

lemma split_parseHeaders:
  "handleResponse P response ty s =
     (case parseHeaders P response s of
        (headers, s') \<Rightarrow>
          (if resp_status response = 204 then
             (Inr \<lparr>total = total headers, skipped = skipped headers, link = link headers,
                   serverDateDiff = serverDateDiff headers,
                   ok = True, status = Some 204, data = None, error = None\<rparr>, s')
           else case read_body response ty of
             Inl e \<Rightarrow>
               (Inr \<lparr>total = total headers, skipped = skipped headers, link = link headers,
                     serverDateDiff = serverDateDiff headers,
                     ok = False, status = Some (resp_status response), data = None,
                     error = Some \<lparr>message = ''Failed to parse '' @ kind_name ty @ '' response'',
                                    error_status = None, error_statusText = None\<rparr>\<rparr>, s')
           | Inr parsedData \<Rightarrow>
               if \<not> response_ok response then
                 (Inr \<lparr>total = total headers, skipped = skipped headers,
                       link = link headers, serverDateDiff = serverDateDiff headers,
                       ok = False, status = Some (resp_status response),
                       data = Some parsedData,
                       error = Some \<lparr>message = ''Request failed: ''
                                        @ show_nat (resp_status response) @ '' ''
                                        @ resp_statusText response,
                                      error_status = Some (resp_status response),
                                      error_statusText = Some (resp_statusText response)\<rparr>\<rparr>, s')
               else
                 (Inr \<lparr>total = total headers, skipped = skipped headers,
                       link = link headers, serverDateDiff = serverDateDiff headers,
                       ok = True, status = Some (resp_status response),
                       data = Some parsedData, error = None\<rparr>, s')))"
  by (simp add: handleResponse_def bnd_def ret_def try_catch_def settled_def
      split: prod.split sum.split)

lemma show_500: "show_nat 500 = ''500''"
  by (simp add: show_nat.simps digit_char_def)


lemma parseHeaders_boom:
  "parseHeaders P boom s =
     (\<lparr>total = None, skipped = None, link = None, serverDateDiff = None\<rparr>, s)"
  by (simp add: parseHeaders_def boom_def parse_count_def truthy_def)

lemma boom_outcome:
  "handleResponse P boom As_json s =
     (Inr \<lparr>total = None, skipped = None, link = None, serverDateDiff = None,
           ok = False, status = Some 500,
           data = Some (FromJson (JObj [(''message'', JStr ''boom'')])),
           error = Some \<lparr>message = ''Request failed: 500 Internal Server Error'',
                          error_status = Some 500,
                          error_statusText = Some ''Internal Server Error''\<rparr>\<rparr>, s)"
proof -
  have b: "read_body boom As_json = Inr (FromJson (JObj [(''message'', JStr ''boom'')]))"
    by (simp add: read_body_def boom_def)
  have n: "\<not> response_ok boom" "resp_status boom \<noteq> 204"
    by (simp_all add: response_ok_def boom_def)
  have st: "resp_status boom = 500" "resp_statusText boom = ''Internal Server Error''"
    by (simp_all add: boom_def)
  show ?thesis
    by (simp add: split_parseHeaders parseHeaders_boom b n show_500) (simp add: st show_500)
qed

lemma parseHeaders_garbled:
  "parseHeaders P (garbled code reason) s =
     (\<lparr>total = None, skipped = None, link = None, serverDateDiff = None\<rparr>, s)"
  by (simp add: parseHeaders_def garbled_def parse_count_def truthy_def)

lemma garbled_outcome:
  "code \<noteq> 204 \<Longrightarrow>
   handleResponse P (garbled code reason) As_json s =
     (Inr \<lparr>total = None, skipped = None, link = None, serverDateDiff = None,
           ok = False, status = Some code, data = None,
           error = Some \<lparr>message = ''Failed to parse JSON response'',
                          error_status = None, error_statusText = None\<rparr>\<rparr>, s)"
proof -
  assume c: "code \<noteq> 204"
  have j: "read_body (garbled code reason) As_json
             = Inl (ErrorObj ''SyntaxError'' ''Unexpected token < in JSON at position 0'')"
    by (simp add: read_body_def garbled_def)
  have st: "resp_status (garbled code reason) = code"
    by (simp add: garbled_def)
  show ?thesis
    using c by (simp add: split_parseHeaders parseHeaders_garbled j st kind_name_def)
qed

text \<open>
  Claim C2 (as amended). For every response whose body decodes and whose status is
  outside 200..299, the outcome is a failure carrying the status, the decoded body as
  data, the parsed metadata, and an error with the status, the status text and the
  message \<^verbatim>\<open>Request failed: <status> <statusText>\<close>, with a capital R.
\<close>

theorem handleResponse_http_error:
  assumes "read_body response ty = Inr body" and "\<not> response_ok response"
  shows "handleResponse P response ty s =
     (Inr \<lparr>total = total (fst (parseHeaders P response s)),
           skipped = skipped (fst (parseHeaders P response s)),
           link = link (fst (parseHeaders P response s)),
           serverDateDiff = serverDateDiff (fst (parseHeaders P response s)),
           ok = False, status = Some (resp_status response), data = Some body,
           error = Some \<lparr>message = ''Request failed: '' @ show_nat (resp_status response)
                                    @ '' '' @ resp_statusText response,
                          error_status = Some (resp_status response),
                          error_statusText = Some (resp_statusText response)\<rparr>\<rparr>,
      snd (parseHeaders P response s))"
proof -
  from assms(2) have "resp_status response \<noteq> 204"
    by (auto simp: response_ok_def)
  with assms show ?thesis
    by (simp add: split_parseHeaders split: prod.split)
qed

text \<open>The scenario of the specification: status 500 with a JSON body.\<close>

theorem handleResponse_http_error_witness:
  "handleResponse (mock_platform (Inr boom) (\<lambda>str. None) 0) boom As_json new_ApiFetch =
     (Inr \<lparr>total = None, skipped = None, link = None, serverDateDiff = None,
           ok = False, status = Some 500,
           data = Some (FromJson (JObj [(''message'', JStr ''boom'')])),
           error = Some \<lparr>message = ''Request failed: 500 Internal Server Error'',
                          error_status = Some 500,
                          error_statusText = Some ''Internal Server Error''\<rparr>\<rparr>,
      new_ApiFetch)"
proof -
  have b: "read_body boom As_json = Inr (FromJson (JObj [(''message'', JStr ''boom'')]))"
    by (simp add: read_body_def boom_def)
  have n: "\<not> response_ok boom" by (simp add: response_ok_def boom_def)
  have st: "resp_status boom = 500" "resp_statusText boom = ''Internal Server Error''"
    by (simp_all add: boom_def)
  show ?thesis
    using handleResponse_http_error [OF b n, of "mock_platform (Inr boom) (\<lambda>str. None) 0" new_ApiFetch]
    by (simp add: parseHeaders_boom st show_500)
qed

text \<open>
  Claim C2 as stated asks for the message \<^verbatim>\<open>request failed: 500 Internal Server Error\<close>
  in that scenario; the outcome of the code is not the outcome with that message.
\<close>

theorem http_error_message_counterexample:
  "handleResponse (mock_platform (Inr boom) (\<lambda>str. None) 0) boom As_json new_ApiFetch
     \<noteq> (Inr \<lparr>total = None, skipped = None, link = None, serverDateDiff = None,
             ok = False, status = Some 500,
             data = Some (FromJson (JObj [(''message'', JStr ''boom'')])),
             error = Some \<lparr>message = ''request failed: 500 Internal Server Error'',
                            error_status = Some 500,
                            error_statusText = Some ''Internal Server Error''\<rparr>\<rparr>,
        new_ApiFetch)"
  by (simp add: boom_outcome)

text \<open>
  Claim C3 (as amended). For every response other than a 204 whose body fails to decode,
  the outcome is a failure with the status of the response, no data, the parsed metadata,
  and an error that has only a message: \<^verbatim>\<open>Failed to parse JSON response\<close> for the JSON
  operations and \<^verbatim>\<open>Failed to parse text response\<close> for \<^verbatim>\<open>doGetText\<close>, with a capital F.
  The status may be inside or outside 200..299.
\<close>

theorem handleResponse_parse_failure:
  assumes "read_body response ty = Inl e" and "resp_status response \<noteq> 204"
  shows "handleResponse P response ty s =
     (Inr \<lparr>total = total (fst (parseHeaders P response s)),
           skipped = skipped (fst (parseHeaders P response s)),
           link = link (fst (parseHeaders P response s)),
           serverDateDiff = serverDateDiff (fst (parseHeaders P response s)),
           ok = False, status = Some (resp_status response), data = None,
           error = Some \<lparr>message = (case ty of As_json \<Rightarrow> ''Failed to parse JSON response''
                                      | As_text \<Rightarrow> ''Failed to parse text response''),
                          error_status = None, error_statusText = None\<rparr>\<rparr>,
      snd (parseHeaders P response s))"
  using assms
  by (simp add: split_parseHeaders kind_name_def split: prod.split response_type.split)

text \<open>An undecodable body with status 200 read as JSON, and with status 502 read as text.\<close>

theorem handleResponse_parse_failure_witness:
  "handleResponse (mock_platform (Inr (garbled 200 ''OK'')) (\<lambda>str. None) 0)
       (garbled 200 ''OK'') As_json new_ApiFetch =
     (Inr \<lparr>total = None, skipped = None, link = None, serverDateDiff = None,
           ok = False, status = Some 200, data = None,
           error = Some \<lparr>message = ''Failed to parse JSON response'',
                          error_status = None, error_statusText = None\<rparr>\<rparr>, new_ApiFetch)
   \<and> handleResponse (mock_platform (Inr (garbled 502 ''Bad Gateway'')) (\<lambda>str. None) 0)
       (garbled 502 ''Bad Gateway'') As_text new_ApiFetch =
     (Inr \<lparr>total = None, skipped = None, link = None, serverDateDiff = None,
           ok = False, status = Some 502, data = None,
           error = Some \<lparr>message = ''Failed to parse text response'',
                          error_status = None, error_statusText = None\<rparr>\<rparr>, new_ApiFetch)"
proof -
  have j: "read_body (garbled 200 ''OK'') As_json
             = Inl (ErrorObj ''SyntaxError'' ''Unexpected token < in JSON at position 0'')"
    by (simp add: read_body_def garbled_def)
  have t: "read_body (garbled 502 ''Bad Gateway'') As_text
             = Inl (ErrorObj ''TypeError'' ''Failed to fetch'')"
    by (simp add: read_body_def garbled_def)
  have n: "resp_status (garbled 200 ''OK'') \<noteq> 204" "resp_status (garbled 502 ''Bad Gateway'') \<noteq> 204"
    by (simp_all add: garbled_def)
  have st: "resp_status (garbled 200 ''OK'') = 200" "resp_status (garbled 502 ''Bad Gateway'') = 502"
    by (simp_all add: garbled_def)
  show ?thesis
    using handleResponse_parse_failure [OF j n(1),
            of "mock_platform (Inr (garbled 200 ''OK'')) (\<lambda>str. None) 0" new_ApiFetch]
          handleResponse_parse_failure [OF t n(2),
            of "mock_platform (Inr (garbled 502 ''Bad Gateway'')) (\<lambda>str. None) 0" new_ApiFetch]
    by (simp add: parseHeaders_garbled st)
qed

text \<open>
  Claim C3 as stated gives the message as \<^verbatim>\<open>failed to parse JSON response\<close>; the outcome
  of the code for a 200 with an undecodable body is not the outcome with that message.
\<close>

theorem parse_failure_message_counterexample:
  "handleResponse (mock_platform (Inr (garbled 200 ''OK'')) (\<lambda>str. None) 0)
       (garbled 200 ''OK'') As_json new_ApiFetch
     \<noteq> (Inr \<lparr>total = None, skipped = None, link = None, serverDateDiff = None,
             ok = False, status = Some 200, data = None,
             error = Some \<lparr>message = ''failed to parse JSON response'',
                            error_status = None, error_statusText = None\<rparr>\<rparr>, new_ApiFetch)"
  by (simp add: garbled_outcome)

section \<open>Outcomes built from a thrown value\<close>

text \<open>
  Claim C4 (as amended). For every value the transport throws, the outcome is a failure
  without status, data or metadata, whose error has only a message: \<^verbatim>\<open>Request aborted\<close>
  for an \<^verbatim>\<open>Error\<close> named \<^verbatim>\<open>AbortError\<close>, the error's own message for any other
  \<^verbatim>\<open>Error\<close>, and \<^verbatim>\<open>Network request failed\<close>, with a capital N, for a thrown value that
  is not an \<^verbatim>\<open>Error\<close>.
\<close>

theorem handleError_classifies:
  "handleError err =
     \<lparr>total = None, skipped = None, link = None, serverDateDiff = None,
      ok = False, status = None, data = None,
      error = Some \<lparr>message =
                 (case err of
                    ErrorObj name msg \<Rightarrow> if name = ''AbortError'' then ''Request aborted'' else msg
                  | NonError \<Rightarrow> ''Network request failed''),
               error_status = None, error_statusText = None\<rparr>\<rparr>"
  by (simp add: handleError_def split: thrown.split)

text \<open>An abort, a network failure reported by the transport, and a thrown non-error.\<close>

theorem handleError_classifies_witness:
  "(handleError (ErrorObj ''AbortError'' ''The user aborted a request.'') :: json_value IApiResponse) =
     \<lparr>total = None, skipped = None, link = None, serverDateDiff = None,
      ok = False, status = None, data = None,
      error = Some \<lparr>message = ''Request aborted'', error_status = None, error_statusText = None\<rparr>\<rparr>
   \<and> (handleError (ErrorObj ''TypeError'' ''Failed to fetch'') :: json_value IApiResponse) =
     \<lparr>total = None, skipped = None, link = None, serverDateDiff = None,
      ok = False, status = None, data = None,
      error = Some \<lparr>message = ''Failed to fetch'', error_status = None, error_statusText = None\<rparr>\<rparr>
   \<and> (handleError NonError :: json_value IApiResponse) =
     \<lparr>total = None, skipped = None, link = None, serverDateDiff = None,
      ok = False, status = None, data = None,
      error = Some \<lparr>message = ''Network request failed'', error_status = None,
                     error_statusText = None\<rparr>\<rparr>"
  using handleError_classifies [of "ErrorObj ''AbortError'' ''The user aborted a request.''"]
        handleError_classifies [of "ErrorObj ''TypeError'' ''Failed to fetch''"]
        handleError_classifies [of NonError]
  by simp

text \<open>
  Claim C4 as stated gives the generic message as \<^verbatim>\<open>network request failed\<close>; the outcome
  of the code for a thrown non-error is not the outcome with that message.
\<close>

theorem generic_message_counterexample:
  "(handleError NonError :: json_value IApiResponse) \<noteq>
     \<lparr>total = None, skipped = None, link = None, serverDateDiff = None,
      ok = False, status = None, data = None,
      error = Some \<lparr>message = ''network request failed'', error_status = None,
                     error_statusText = None\<rparr>\<rparr>"
  by (simp add: handleError_def)

section \<open>The internal URL composer\<close>

text \<open>
  Claim C5 (as amended). The internal composer has no case for absolute URLs. For every
  endpoint the result is the base URL followed by the endpoint, with a slash put in
  between exactly when the endpoint does not start with one; a base URL that ends in a
  slash is not trimmed, so a doubled slash is reproduced. A configured, non-empty token is
  appended as \<^verbatim>\<open>token=\<close>, after \<^verbatim>\<open>&\<close> if the endpoint contains a question mark and after
  \<^verbatim>\<open>?\<close> otherwise.
\<close>

theorem composeUrl_result:
  "composeUrl config endpoint =
     apiUrl config
     @ (if take 1 endpoint = ''/'' then endpoint else ''/'' @ endpoint)
     @ (case token config of
          None \<Rightarrow> []
        | Some t \<Rightarrow>
            if t = [] then []
            else (if CHR ''?'' \<in> set endpoint then ''&'' else ''?'') @ ''token='' @ t)"
  by (auto simp add: composeUrl_def startsWith_def str_includes_def Let_def split: option.split)

text \<open>Relative endpoints with and without leading slash, a base with a trailing slash,
  tokens, and an absolute URL passed as endpoint.\<close>

theorem composeUrl_result_witness:
  "composeUrl \<lparr>apiUrl = ''http://h/api'', token = None\<rparr> ''/things'' = ''http://h/api/things''
   \<and> composeUrl \<lparr>apiUrl = ''http://h/api'', token = None\<rparr> ''things'' = ''http://h/api/things''
   \<and> composeUrl \<lparr>apiUrl = ''http://h/api/'', token = None\<rparr> ''/things'' = ''http://h/api//things''
   \<and> composeUrl \<lparr>apiUrl = ''http://h/api'', token = Some ''''\<rparr> ''/things'' = ''http://h/api/things''
   \<and> composeUrl \<lparr>apiUrl = ''http://h/api'', token = Some ''abc123''\<rparr> ''/things''
         = ''http://h/api/things?token=abc123''
   \<and> composeUrl \<lparr>apiUrl = ''http://h/api'', token = Some ''abc123''\<rparr> ''/things?limit=20''
         = ''http://h/api/things?limit=20&token=abc123''
   \<and> composeUrl \<lparr>apiUrl = ''http://h/api'', token = Some ''abc123''\<rparr> ''https://other.example/x''
         = ''http://h/api/https://other.example/x?token=abc123''"
  using composeUrl_result [of "\<lparr>apiUrl = ''http://h/api'', token = None\<rparr>" "''/things''"]
        composeUrl_result [of "\<lparr>apiUrl = ''http://h/api'', token = None\<rparr>" "''things''"]
        composeUrl_result [of "\<lparr>apiUrl = ''http://h/api/'', token = None\<rparr>" "''/things''"]
        composeUrl_result [of "\<lparr>apiUrl = ''http://h/api'', token = Some ''''\<rparr>" "''/things''"]
        composeUrl_result [of "\<lparr>apiUrl = ''http://h/api'', token = Some ''abc123''\<rparr>" "''/things''"]
        composeUrl_result [of "\<lparr>apiUrl = ''http://h/api'', token = Some ''abc123''\<rparr>" "''/things?limit=20''"]
        composeUrl_result [of "\<lparr>apiUrl = ''http://h/api'', token = Some ''abc123''\<rparr>" "''https://other.example/x''"]
  by simp

text \<open>
  Claim C5 as stated returns an absolute path unchanged and concatenates a path without
  leading slash as it is; the code prefixes the base URL and a slash in both cases.
\<close>

theorem composeUrl_absolute_counterexample:
  "composeUrl \<lparr>apiUrl = ''http://h/api'', token = None\<rparr> ''https://other.example/x''
     = ''http://h/api/https://other.example/x''
   \<and> composeUrl \<lparr>apiUrl = ''http://h/api'', token = None\<rparr> ''https://other.example/x''
     \<noteq> ''https://other.example/x''
   \<and> composeUrl \<lparr>apiUrl = ''http://h/api'', token = None\<rparr> ''things'' = ''http://h/api/things''
   \<and> composeUrl \<lparr>apiUrl = ''http://h/api'', token = None\<rparr> ''things'' \<noteq> ''http://h/api'' @ ''things''"
  by (simp add: composeUrl_def startsWith_def str_includes_def)

section \<open>Metadata headers\<close>


































lemma handleResponse_metadata:
  "\<exists>out. handleResponse P response ty s = (Inr out, snd (parseHeaders P response s))
     \<and> total out = total (fst (parseHeaders P response s))
     \<and> skipped out = skipped (fst (parseHeaders P response s))
     \<and> link out = link (fst (parseHeaders P response s))
     \<and> serverDateDiff out = serverDateDiff (fst (parseHeaders P response s))"
  by (simp add: split_parseHeaders split: prod.split sum.split)




lemma parseHeaders_skew_some:
  assumes "resp_headers response ''Date'' = Some str" "str \<noteq> []" "Date_parse P str = Some serverDate"
  shows "serverDateDiff (fst (parseHeaders P response s)) = Some (Date_now P - serverDate)"
    and "snd (parseHeaders P response s) = s\<lparr>this_serverDateDiff := Date_now P - serverDate\<rparr>"
  using assms by (simp_all add: parseHeaders_def Let_def)

lemma parseHeaders_skew_none:
  assumes "resp_headers response ''Date'' = None \<or> resp_headers response ''Date'' = Some []
           \<or> (\<exists>str. resp_headers response ''Date'' = Some str \<and> Date_parse P str = None)"
  shows "serverDateDiff (fst (parseHeaders P response s)) = None"
    and "snd (parseHeaders P response s) = s"
  using assms by (auto simp add: parseHeaders_def Let_def)

text \<open>
  Claim C9. A new instance reports the skew 0. A response with a non-empty \<^verbatim>\<open>Date\<close>
  header that parses to a date gives an outcome whose \<open>serverDateDiff\<close> is the clock
  reading minus that date, and the instance reports this value afterwards. A response
  with no \<^verbatim>\<open>Date\<close> header, an empty one or one that does not parse gives an outcome
  without \<open>serverDateDiff\<close> and leaves the value the instance reports as it was.
\<close>

theorem clock_skew:
  "getServerDateDiff new_ApiFetch = 0
   \<and> (resp_headers response ''Date'' = Some str \<and> str \<noteq> [] \<and> Date_parse P str = Some serverDate
        \<longrightarrow> (\<exists>out s'. handleResponse P response ty s = (Inr out, s')
               \<and> serverDateDiff out = Some (Date_now P - serverDate)
               \<and> getServerDateDiff s' = Date_now P - serverDate))
   \<and> (resp_headers response ''Date'' = None \<or> resp_headers response ''Date'' = Some []
        \<or> (resp_headers response ''Date'' = Some str \<and> Date_parse P str = None)
        \<longrightarrow> (\<exists>out s'. handleResponse P response ty s = (Inr out, s')
               \<and> serverDateDiff out = None
               \<and> getServerDateDiff s' = getServerDateDiff s))"
proof (intro conjI impI)
  show "getServerDateDiff new_ApiFetch = 0"
    by (simp add: getServerDateDiff_def new_ApiFetch_def)
next
  assume a: "resp_headers response ''Date'' = Some str \<and> str \<noteq> [] \<and> Date_parse P str = Some serverDate"
  obtain out where o: "handleResponse P response ty s = (Inr out, snd (parseHeaders P response s))"
    "serverDateDiff out = serverDateDiff (fst (parseHeaders P response s))"
    using handleResponse_metadata [of P response ty s] by blast
  from a have "serverDateDiff (fst (parseHeaders P response s)) = Some (Date_now P - serverDate)"
    and "snd (parseHeaders P response s) = s\<lparr>this_serverDateDiff := Date_now P - serverDate\<rparr>"
    by (simp_all add: parseHeaders_skew_some)
  with o show "\<exists>out s'. handleResponse P response ty s = (Inr out, s')
               \<and> serverDateDiff out = Some (Date_now P - serverDate)
               \<and> getServerDateDiff s' = Date_now P - serverDate"
    by (simp add: getServerDateDiff_def)
next
  assume a: "resp_headers response ''Date'' = None \<or> resp_headers response ''Date'' = Some []
        \<or> (resp_headers response ''Date'' = Some str \<and> Date_parse P str = None)"
  obtain out where o: "handleResponse P response ty s = (Inr out, snd (parseHeaders P response s))"
    "serverDateDiff out = serverDateDiff (fst (parseHeaders P response s))"
    using handleResponse_metadata [of P response ty s] by blast
  from a have "resp_headers response ''Date'' = None \<or> resp_headers response ''Date'' = Some []
           \<or> (\<exists>str. resp_headers response ''Date'' = Some str \<and> Date_parse P str = None)"
    by blast
  then have "serverDateDiff (fst (parseHeaders P response s)) = None"
    and "snd (parseHeaders P response s) = s"
    by (rule parseHeaders_skew_none)+
  with o show "\<exists>out s'. handleResponse P response ty s = (Inr out, s')
               \<and> serverDateDiff out = None
               \<and> getServerDateDiff s' = getServerDateDiff s"
    by simp
qed

text \<open>A first response dated one second after the epoch read at 5000 ms, and a later
  response with a malformed date on an instance whose cached skew is 4000.\<close>

theorem clock_skew_witness:
  "getServerDateDiff new_ApiFetch = 0
   \<and> (\<exists>out s'. handleResponse (mock_platform (Inr boom) epoch_dates 5000)
                (with_headers 200 [''Date'' \<mapsto> ''Thu, 01 Jan 1970 00:00:01 GMT''])
                As_json new_ApiFetch = (Inr out, s')
        \<and> serverDateDiff out = Some 4000 \<and> getServerDateDiff s' = 4000)
   \<and> (\<exists>out s'. handleResponse (mock_platform (Inr boom) epoch_dates 9000)
                (with_headers 200 [''Date'' \<mapsto> ''yesterday''])
                As_json (new_ApiFetch\<lparr>this_serverDateDiff := 4000\<rparr>) = (Inr out, s')
        \<and> serverDateDiff out = None \<and> getServerDateDiff s' = 4000)"
  using clock_skew [of "with_headers 200 [''Date'' \<mapsto> ''Thu, 01 Jan 1970 00:00:01 GMT'']"
          "''Thu, 01 Jan 1970 00:00:01 GMT''" "mock_platform (Inr boom) epoch_dates 5000" 1000
          As_json new_ApiFetch]
        clock_skew [of "with_headers 200 [''Date'' \<mapsto> ''yesterday'']"
          "''yesterday''" "mock_platform (Inr boom) epoch_dates 9000" 0
          As_json "new_ApiFetch\<lparr>this_serverDateDiff := 4000\<rparr>"]
  by (simp add: with_headers_def mock_platform_def epoch_dates_def getServerDateDiff_def)

section \<open>Auto-cancel\<close>

text \<open>Issuing an auto-cancel call aborts the controller in the slot, if there is one, and
  nothing else; a call with a manual signal, or none, touches neither slot nor store.
  Resuming an auto-cancel call empties the slot, whatever it holds.\<close>

lemma issue_aborts_slot:
  "useAbort options \<Longrightarrow>
   aborted (snd (doGet_issue config endpoint options s :: 'f request \<times> state))
     = (case this_controller s of None \<Rightarrow> aborted s | Some c \<Rightarrow> insert c (aborted s))"
  by (simp add: doGet_issue_def new_AbortController_def abort_def split: option.split)

lemma manual_signal_kept:
  "\<not> useAbort options \<Longrightarrow>
   doGet_issue config endpoint options s
     = (\<lparr>req_url = composeUrl config endpoint, req_method = ''GET'', req_headers = [],
         req_body = None, req_credentials = ''include'', req_signal = opt_signal options\<rparr>, s)"
  by (simp add: doGet_issue_def)

lemma resume_clears_slot:
  "useAbort options \<Longrightarrow> this_controller (snd (doGet_resume P options fetched s)) = None"
  by (simp add: doGet_resume_def try_finally_def split: prod.split)

lemmas trace_defs =
  run_def three_searches_def step_def doGet_issue_def doGet_resume_def new_world_def
  new_ApiFetch_def auto_cancel_def new_AbortController_def abort_def search_config_def
  composeUrl_def startsWith_def str_includes_def aborting_def mock_platform_def
  try_finally_def try_catch_def bnd_def settled_def ret_def handleError_def

text \<open>
  Claim C6. The claim asks that a new auto-cancel GET cancels the previous one that is
  still in flight, and that a settling call clears the slot only if the slot still holds
  its own controller. The code clears the slot whenever an auto-cancel call settles. Of
  three searches, the second aborts the first (controller 0); when the first settles, the
  slot, which holds the second call's controller 1, is emptied; the third call then finds
  nothing to abort. At the end the second and third calls are both in flight and
  controller 1 has not been aborted.
\<close>

theorem third_search_leaves_second_running:
  "map (\<lambda>(k, options, req). (k, req_signal req))
       (in_flight (run search_config new_world three_searches))
     = [(2, Some (SignalOf 1)), (3, Some (SignalOf 2))]
   \<and> aborted (instance_state (run search_config new_world three_searches)) = {0}
   \<and> 1 \<notin> aborted (instance_state (run search_config new_world three_searches))
   \<and> this_controller (instance_state (run search_config new_world (take 3 three_searches)))
       = None
   \<and> map fst (in_flight (run search_config new_world (take 3 three_searches))) = [2]"
  by (simp add: trace_defs)

section \<open>The public URL composer\<close>

lemma char_codes:
  "of_char CHR ''/'' = (47::nat)" "of_char CHR ''?'' = (63::nat)" "of_char CHR ''#'' = (35::nat)"
  "of_char CHR '':'' = (58::nat)" "of_char CHR ''='' = (61::nat)" "of_char CHR ''&'' = (38::nat)"
  "of_char CHR ''.'' = (46::nat)" "of_char CHR ''_'' = (95::nat)" "of_char CHR ''-'' = (45::nat)"
  by simp_all

lemma plain_char_not:
  assumes "isPlainChar c"
  shows "c \<noteq> CHR ''/''" "c \<noteq> CHR ''?''" "c \<noteq> CHR ''#''" "c \<noteq> CHR ''=''" "c \<noteq> CHR ''&''"
    "c \<noteq> CHR '':''"
  using assms by (auto simp add: isPlainChar_def isAsciiAlpha_def isDigit_def)



























lemma no_scheme_redirect: "\<not> has_scheme ''/redirect''"
  by (simp add: has_scheme_def isC0ControlOrSpace_def isTabOrNewline_def isAsciiAlpha_def)

lemma pattern_samples:
  "\<not> pattern_test ''/redirect''" "\<not> pattern_test []" "\<not> pattern_test ''/redirect#top''"
  "\<not> pattern_test ''/search?q=1''"
  "pattern_test ''https://external-api.com/callback''"
  "pattern_test ''https://api.example.com/callback?state=xyz&page=2''"
  by (simp_all add: pattern_test_def startsWith_def)











text \<open>
  Claim C10. With a token configured, \<open>composePath\<close> throws a \<^verbatim>\<open>TypeError\<close> whenever the
  base URL followed by the path (or the absolute path) is not a parseable absolute URL,
  in particular whenever it has no scheme. With no token (none, or the empty string) it
  returns that string as it is and never throws.
\<close>

theorem composePath_throws:
  "(token config = Some t \<and> t \<noteq> []
      \<and> (\<not> has_scheme (if pattern_test path then path else apiUrl config @ path)
           \<or> URL_parse U (if pattern_test path then path else apiUrl config @ path) = None)
      \<longrightarrow> composePath U config path = Inl (ErrorObj ''TypeError'' (invalid_URL_message U)))
   \<and> (token config = None \<or> token config = Some []
      \<longrightarrow> composePath U config path
            = Inr (if pattern_test path then path else apiUrl config @ path))"
  by (auto simp add: composePath_def URL_new_def Let_def)

text \<open>An empty base URL with and without a token, and a base URL that the URL
  constructor would give a trailing slash, with an empty token.\<close>

theorem composePath_throws_witness:
  "composePath plain_URL \<lparr>apiUrl = [], token = Some ''abc123''\<rparr> ''/redirect''
     = Inl (ErrorObj ''TypeError'' ''Invalid URL'')
   \<and> composePath plain_URL \<lparr>apiUrl = [], token = None\<rparr> ''/redirect'' = Inr ''/redirect''
   \<and> composePath plain_URL \<lparr>apiUrl = ''http://localhost:3001'', token = Some []\<rparr> []
     = Inr ''http://localhost:3001''"
  using composePath_throws [where config = "\<lparr>apiUrl = [], token = Some ''abc123''\<rparr>"
          and t = "''abc123''" and path = "''/redirect''" and U = plain_URL]
        composePath_throws [where config = "\<lparr>apiUrl = [], token = None\<rparr>"
          and path = "''/redirect''" and U = plain_URL]
        composePath_throws [where config = "\<lparr>apiUrl = ''http://localhost:3001'', token = Some []\<rparr>"
          and path = "[]" and U = plain_URL]
  by (simp add: pattern_samples no_scheme_redirect) (simp add: plain_URL_def)

end
